theory Spec2Isabelle
  imports Complex_Main "HOL-Library.Sublist"
begin

section \<open>Text\<close>

text \<open>
  A Python \<open>str\<close> is a sequence of Unicode code points. The model is the list of their
  numbers; \<open>U\<close> writes a literal of the source.
\<close>

type_synonym uchar = int

type_synonym ustr = "int list"

definition U :: "string \<Rightarrow> ustr" where
  "U s = map of_char s"

definition whitespace :: "uchar list" where
  \<comment> \<open>the code points for which \<open>str.isspace\<close> holds; they are the class \<open>\s\<close> of \<open>re\<close> and
      what \<open>str.strip()\<close> removes\<close>
  "whitespace =
     [0x09, 0x0A, 0x0B, 0x0C, 0x0D, 0x1C, 0x1D, 0x1E, 0x1F, 0x20, 0x85, 0xA0, 0x1680,
      0x2000, 0x2001, 0x2002, 0x2003, 0x2004, 0x2005, 0x2006, 0x2007, 0x2008, 0x2009, 0x200A,
      0x2028, 0x2029, 0x202F, 0x205F, 0x3000]"

definition is_space :: "uchar \<Rightarrow> bool" where
  "is_space c = (c \<in> set whitespace)"

definition lstrip :: "ustr \<Rightarrow> ustr" where
  "lstrip s = dropWhile is_space s"

definition rstrip :: "ustr \<Rightarrow> ustr" where
  "rstrip s = rev (dropWhile is_space (rev s))"

definition strip :: "ustr \<Rightarrow> ustr" where
  \<comment> \<open>\<open>s.strip()\<close>\<close>
  "strip s = rstrip (lstrip s)"

subsection \<open>Character classes and case\<close>

text \<open>
  Which code points are letters or digits, and how they change case, is decided by the
  Unicode character database of the Python runtime, which is not part of the repository:
  it is a parameter of the model. Three parts of it are fixed here, because the source
  depends on them and they are the same in every version of the database: the ASCII
  range; the whitespace code points, which are neither letters nor digits and have no
  case; and the four code points beyond ASCII that case-insensitive matching identifies
  with an ASCII letter, dotted capital I (U+0130) and dotless i (U+0131) with \<open>i\<close>, long s
  (U+017F) with \<open>s\<close>, and the Kelvin sign (U+212A) with \<open>k\<close>, all four of them letters.
\<close>

record unicode_db =
  alnum :: "uchar \<Rightarrow> bool"
  decimal :: "uchar \<Rightarrow> nat option"
  upper_of :: "uchar \<Rightarrow> ustr"

definition ascii_upper :: "uchar \<Rightarrow> uchar" where
  "ascii_upper c = (if 0x61 \<le> c \<and> c \<le> 0x7A then c - 0x20 else c)"

definition ascii_lower :: "uchar \<Rightarrow> uchar" where
  "ascii_lower c = (if 0x41 \<le> c \<and> c \<le> 0x5A then c + 0x20 else c)"

definition ascii_alnum :: "uchar \<Rightarrow> bool" where
  "ascii_alnum c = ((0x30 \<le> c \<and> c \<le> 0x39) \<or> (0x41 \<le> c \<and> c \<le> 0x5A) \<or> (0x61 \<le> c \<and> c \<le> 0x7A))"

definition fold_partners :: "(uchar \<times> uchar \<times> ustr) list" where
  \<comment> \<open>the code points beyond ASCII that \<open>re.IGNORECASE\<close> matches with an ASCII letter:
      the code point, the lower-case letter, and the \<open>str.upper()\<close> of the code point\<close>
  "fold_partners =
     [(0x130, 0x69, [0x130]), (0x131, 0x69, [0x49]), (0x17F, 0x73, [0x53]),
      (0x212A, 0x6B, [0x212A])]"

definition is_alnum :: "unicode_db \<Rightarrow> uchar \<Rightarrow> bool" where
  \<comment> \<open>\<open>c.isalnum()\<close>\<close>
  "is_alnum db c =
     (if c < 0x80 then ascii_alnum c
      else if is_space c then False
      else if map_of fold_partners c \<noteq> None then True
      else alnum db c)"

definition is_word :: "unicode_db \<Rightarrow> uchar \<Rightarrow> bool" where
  \<comment> \<open>the class \<open>\w\<close>\<close>
  "is_word db c = (is_alnum db c \<or> c = 0x5F)"

definition digit_value :: "unicode_db \<Rightarrow> uchar \<Rightarrow> nat option" where
  \<comment> \<open>the value of a decimal digit: the class \<open>\d\<close>, and the digits that \<open>int()\<close> reads\<close>
  "digit_value db c =
     (if c < 0x80 then (if 0x30 \<le> c \<and> c \<le> 0x39 then Some (nat (c - 0x30)) else None)
      else if is_space c \<or> map_of fold_partners c \<noteq> None then None
      else decimal db c)"

definition is_digit :: "unicode_db \<Rightarrow> uchar \<Rightarrow> bool" where
  "is_digit db c = (digit_value db c \<noteq> None)"

definition upper_char :: "unicode_db \<Rightarrow> uchar \<Rightarrow> ustr" where
  "upper_char db c =
     (if c < 0x80 then [ascii_upper c]
      else if is_space c then [c]
      else case map_of fold_partners c of
             Some (l, u) \<Rightarrow> u
           | None \<Rightarrow> upper_of db c)"

definition upper :: "unicode_db \<Rightarrow> ustr \<Rightarrow> ustr" where
  \<comment> \<open>\<open>s.upper()\<close>: character by character; one code point can give several\<close>
  "upper db s = concat (map (upper_char db) s)"

definition ci_eq :: "uchar \<Rightarrow> uchar \<Rightarrow> bool" where
  \<comment> \<open>the character \<open>x\<close> of a pattern compiled with \<open>re.IGNORECASE\<close>, an ASCII character in
      every pattern of the source, matches the character \<open>c\<close> of the text\<close>
  "ci_eq x c =
     (if c < 0x80 then ascii_lower c = ascii_lower x
      else case map_of fold_partners c of
             Some (l, u) \<Rightarrow> l = ascii_lower x
           | None \<Rightarrow> False)"

section \<open>Data structures\<close>

record Player =
  team_id :: int
  team :: ustr
  season :: ustr
  division :: ustr
  player_id :: "ustr option"
  name :: ustr
  jersey :: ustr
  position :: ustr
  height :: ustr
  year :: ustr
  major :: ustr
  hometown :: ustr
  high_school :: ustr
  previous_school :: ustr
  url :: ustr

section \<open>Field extractors\<close>

subsection \<open>\<open>FieldExtractors.normalize_academic_year\<close>\<close>

definition year_map :: "(ustr \<times> ustr) list" where
  "year_map = map (\<lambda>(short_form, long_form). (U short_form, U long_form))
    [(''Fr'', ''Freshman''), (''Fr.'', ''Freshman''), (''FR'', ''Freshman''),
     (''So'', ''Sophomore''), (''So.'', ''Sophomore''), (''SO'', ''Sophomore''),
     (''Jr'', ''Junior''), (''Jr.'', ''Junior''), (''JR'', ''Junior''),
     (''Sr'', ''Senior''), (''Sr.'', ''Senior''), (''SR'', ''Senior''),
     (''Gr'', ''Graduate''), (''Gr.'', ''Graduate''), (''GR'', ''Graduate''),
     (''R-Fr'', ''Redshirt Freshman''), (''R-Fr.'', ''Redshirt Freshman''),
     (''R-So'', ''Redshirt Sophomore''), (''R-So.'', ''Redshirt Sophomore''),
     (''R-Jr'', ''Redshirt Junior''), (''R-Jr.'', ''Redshirt Junior''),
     (''R-Sr'', ''Redshirt Senior''), (''R-Sr.'', ''Redshirt Senior''),
     (''1st'', ''Freshman''), (''First'', ''Freshman''),
     (''2nd'', ''Sophomore''), (''Second'', ''Sophomore''),
     (''3rd'', ''Junior''), (''Third'', ''Junior''),
     (''4th'', ''Senior''), (''Fourth'', ''Senior'')]"

definition normalize_academic_year :: "ustr \<Rightarrow> ustr" where
  "normalize_academic_year year_text =
     (if year_text = [] then []
      else (case map_of year_map (strip year_text) of
              Some long_form \<Rightarrow> long_form
            | None \<Rightarrow> year_text))"

section \<open>Result validator\<close>

subsection \<open>\<open>JSScraper._validate_players\<close>\<close>

text \<open>
  The source computes each coverage as the float \<open>count / total * 100\<close> and compares it
  with the literals 80, 70 and 50. The model computes the same quotient over the
  rationals. For rosters of any realistic size the two agree on every comparison: the
  floats of 4/5, 7/10 and 1/2 times 100 are 80.0, 70.0 and 50.0, and an exact coverage
  that differs from a threshold differs from it by at least \<open>100 / total\<close>.
\<close>

definition field_count :: "(Player \<Rightarrow> ustr) \<Rightarrow> Player list \<Rightarrow> nat" where
  "field_count f players = length (filter (\<lambda>p. f p \<noteq> []) players)"

definition coverage :: "(Player \<Rightarrow> ustr) \<Rightarrow> Player list \<Rightarrow> rat" where
  "coverage f players = of_nat (field_count f players) / of_nat (length players) * 100"

definition validate_players :: "Player list \<Rightarrow> bool" where
  "validate_players players =
     (if players = [] then False
      else
        let total = length players;
            c_name = coverage name players;
            c_jersey = coverage jersey players;
            c_position = coverage position players;
            c_year = coverage year players
        in
        if c_name < 80 then False
        else if c_jersey < 80 \<and> \<not> (total \<ge> 15 \<and> c_jersey \<ge> 50) then False
        else if c_position < 70 \<or> c_year < 70 then
          (if total \<ge> 15 \<and> (c_position \<ge> 50 \<or> c_year \<ge> 50) then True
           else if total \<ge> 15 \<and> c_name \<ge> 80 \<and> c_jersey \<ge> 50 then True
           else False)
        else True)"

text \<open>The acceptance rule in the words of the specification, for comparison.\<close>

definition spec_accepts :: "Player list \<Rightarrow> bool" where
  "spec_accepts players =
     (players \<noteq> [] \<and>
      coverage name players \<ge> 80 \<and>
      (coverage jersey players \<ge> 80 \<or>
         (length players \<ge> 15 \<and> coverage jersey players \<ge> 50)) \<and>
      ((coverage position players \<ge> 70 \<and> coverage year players \<ge> 70) \<or>
       (length players \<ge> 15 \<and> coverage position players \<ge> 50 \<and> coverage year players \<ge> 50) \<or>
       (length players \<ge> 15 \<and> coverage name players \<ge> 80 \<and> coverage jersey players \<ge> 50)))"

definition blank_player :: Player where
  "blank_player = \<lparr> team_id = 457, team = U ''UNC'', season = U ''2025'', division = U ''I'',
     player_id = None, name = [], jersey = [], position = [], height = [], year = [],
     major = [], hometown = [], high_school = [], previous_school = [], url = [] \<rparr>"

definition roster20 :: "nat \<Rightarrow> Player list" where
  \<comment> \<open>20 records: 18 jerseyed, 10 positioned, 10 classed, and the given number named\<close>
  "roster20 named =
     map (\<lambda>i. blank_player \<lparr> name := (if i < named then U ''Player'' else []),
                             jersey := (if i < 18 then U ''7'' else []),
                             position := (if i < 10 then U ''M'' else []),
                             year := (if i < 10 then U ''Junior'' else []) \<rparr>) [0..<20]"

section \<open>String operations of the Python library\<close>

fun contains :: "ustr \<Rightarrow> ustr \<Rightarrow> bool" where
  \<comment> \<open>\<open>sub in s\<close>\<close>
  "contains sub [] = (sub = [])"
| "contains sub (c # cs) = (prefix sub (c # cs) \<or> contains sub cs)"

definition rstrip_char :: "uchar \<Rightarrow> ustr \<Rightarrow> ustr" where
  \<comment> \<open>\<open>s.rstrip(c)\<close> for a one-character argument\<close>
  "rstrip_char c s = rev (dropWhile (\<lambda>x. x = c) (rev s))"

fun replace_from :: "ustr \<Rightarrow> ustr \<Rightarrow> nat \<Rightarrow> ustr \<Rightarrow> ustr" where
  \<comment> \<open>the counter is the number of characters of the current occurrence still to skip\<close>
  "replace_from old new k [] = []"
| "replace_from old new (Suc k) (c # cs) = replace_from old new k cs"
| "replace_from old new 0 (c # cs) =
     (if prefix old (c # cs) then new @ replace_from old new (length old - 1) cs
      else c # replace_from old new 0 cs)"

definition replace :: "ustr \<Rightarrow> ustr \<Rightarrow> ustr \<Rightarrow> ustr" where
  \<comment> \<open>\<open>s.replace(old, new)\<close>: every occurrence, left to right, without overlap.
      Every call in the source passes a non-empty literal for \<open>old\<close>.\<close>
  "replace old new s = replace_from old new 0 s"

fun split_on :: "uchar \<Rightarrow> ustr \<Rightarrow> ustr list" where
  \<comment> \<open>\<open>s.split(d)\<close> for a one-character separator\<close>
  "split_on d [] = [[]]"
| "split_on d (c # cs) =
     (if c = d then [] # split_on d cs
      else (case split_on d cs of
              [] \<Rightarrow> [[c]]
            | w # ws \<Rightarrow> (c # w) # ws))"

definition last_two :: "ustr \<Rightarrow> ustr" where
  \<comment> \<open>\<open>s[-2:]\<close>\<close>
  "last_two s = drop (length s - 2) s"

subsection \<open>\<open>int(s)\<close> and \<open>str(n)\<close>\<close>

definition is_int_space :: "uchar \<Rightarrow> bool" where
  \<comment> \<open>the whitespace that \<open>int()\<close> skips around the number: that of \<open>str.isspace\<close> without
      the four separators U+001C to U+001F\<close>
  "is_int_space c = (is_space c \<and> \<not> (0x1C \<le> c \<and> c \<le> 0x1F))"

fun int_body_ok :: "unicode_db \<Rightarrow> ustr \<Rightarrow> bool" where
  \<comment> \<open>decimal digits, single underscores allowed between digits\<close>
  "int_body_ok db [] = False"
| "int_body_ok db [c] = is_digit db c"
| "int_body_ok db (c # d # cs) =
     (is_digit db c \<and> (if d = 0x5F then int_body_ok db cs else int_body_ok db (d # cs)))"

definition digits_value :: "unicode_db \<Rightarrow> ustr \<Rightarrow> nat" where
  "digits_value db ds =
     foldl (\<lambda>acc c. 10 * acc + (case digit_value db c of Some v \<Rightarrow> v | None \<Rightarrow> 0)) 0 ds"

definition max_str_digits :: nat where
  \<comment> \<open>the default limit of Python on the number of digits in a conversion between \<open>int\<close>
      and \<open>str\<close>; a longer one raises \<open>ValueError\<close>\<close>
  "max_str_digits = 4300"

definition py_int :: "unicode_db \<Rightarrow> ustr \<Rightarrow> int option" where
  \<comment> \<open>\<open>int(s)\<close>; \<open>None\<close> stands for \<open>ValueError\<close>\<close>
  "py_int db s =
     (let t = rev (dropWhile is_int_space (rev (dropWhile is_int_space s)));
          negative = (t \<noteq> [] \<and> hd t = 0x2D);
          body = (if t \<noteq> [] \<and> (hd t = 0x2D \<or> hd t = 0x2B) then tl t else t);
          digits = filter (\<lambda>c. c \<noteq> 0x5F) body
      in if int_body_ok db body \<and> length digits \<le> max_str_digits
         then Some ((if negative then -1 else 1) * int (digits_value db digits))
         else None)"

fun nat_str :: "nat \<Rightarrow> ustr" where
  "nat_str n =
     (if n < 10 then [0x30 + int n]
      else nat_str (n div 10) @ [0x30 + int (n mod 10)])"

declare nat_str.simps [simp del]

definition py_str :: "int \<Rightarrow> ustr option" where
  \<comment> \<open>\<open>str(n)\<close> and \<open>f"{n}"\<close> for an integer; \<open>None\<close> stands for \<open>ValueError\<close>\<close>
  "py_str i =
     (let digits = nat_str (nat \<bar>i\<bar>) in
      if length digits > max_str_digits then None
      else Some (if i < 0 then 0x2D # digits else digits))"

section \<open>URL builder\<close>

subsection \<open>\<open>URLBuilder.build_roster_url\<close>\<close>

definition season_range :: "int \<Rightarrow> ustr option" where
  \<comment> \<open>\<open>next_year = str(year + 1)[-2:]; season_range = f"{year}-{next_year}"\<close>\<close>
  "season_range y =
     (case py_str (y + 1) of
        None \<Rightarrow> None
      | Some next_year \<Rightarrow>
          (case py_str y of
             None \<Rightarrow> None
           | Some this_year \<Rightarrow> Some (this_year @ U ''-'' @ last_two next_year)))"

definition range_of_season :: "unicode_db \<Rightarrow> ustr \<Rightarrow> ustr option" where
  \<comment> \<open>the body of the \<open>try\<close> blocks that convert a single year; \<open>None\<close> is their \<open>except ValueError\<close>\<close>
  "range_of_season db season_s =
     (case py_int db season_s of
        None \<Rightarrow> None
      | Some y \<Rightarrow> season_range y)"

definition end_year :: "ustr \<Rightarrow> ustr" where
  \<comment> \<open>the year of the \<open>clemson_roster\<close> and \<open>kentucky_season\<close> branches; \<open>split('-')[1]\<close>
      exists whenever \<open>'-' in season\<close>, so their \<open>except\<close> branch cannot be reached\<close>
  "end_year s =
     (if 0x2D \<in> set s then
        (let y = split_on 0x2D s ! 1 in if length y = 2 then U ''20'' @ y else y)
      else s)"

definition build_roster_url :: "unicode_db \<Rightarrow> ustr \<Rightarrow> ustr \<Rightarrow> ustr \<Rightarrow> ustr" where
  "build_roster_url db base_url0 season_s url_format =
     (let base_url = rstrip_char 0x2F base_url0 in
      if contains (U ''/roster/'') base_url then base_url
      else if url_format = U ''default'' then base_url @ U ''/roster/'' @ season_s
      else if url_format = U ''wsoc_index'' then
        (if contains (U ''/index'') base_url
         then replace (U ''/index'') (U ''/roster/'' @ season_s) base_url
         else base_url @ U ''/roster/'' @ season_s)
      else if url_format = U ''wsoc_plain'' then base_url @ U ''/roster/'' @ season_s
      else if url_format = U ''ucf_table'' then
        base_url @ U ''/roster/season/'' @ season_s @ U ''?view=table''
      else if url_format = U ''virginia_season'' then
        (case range_of_season db season_s of
           Some r \<Rightarrow> base_url @ U ''/roster/season/'' @ r @ U ''/''
         | None \<Rightarrow> base_url @ U ''/roster/season/'' @ season_s @ U ''/'')
      else if url_format = U ''clemson_roster'' then
        base_url @ U ''/roster/season/'' @ end_year season_s @ U ''/?view=table''
      else if url_format = U ''kentucky_season'' then
        base_url @ U ''/roster/season/'' @ end_year season_s @ U ''/''
      else if url_format = U ''wsoc_season_range'' then
        (let clean_url = replace (U ''/index'') [] base_url in
         case range_of_season db season_s of
           Some r \<Rightarrow> clean_url @ U ''/'' @ r @ U ''/roster''
         | None \<Rightarrow> clean_url @ U ''/'' @ season_s @ U ''/roster'')
      else base_url @ U ''/roster/'' @ season_s)"

section \<open>Regular expressions of the \<open>re\<close> module\<close>

text \<open>
  The patterns of the source are values of \<open>rx\<close>. The matcher follows the backtracking
  order of \<open>re\<close>: \<open>ends r p s\<close> lists, in the order in which the engine would try
  them, the lengths of the prefixes of \<open>s\<close> that \<open>r\<close> can match, where \<open>p\<close> is the
  character before \<open>s\<close> (\<open>None\<close> at the start of the text). The first element is the
  match that \<open>re\<close> reports. Repetition is greedy and is needed for character classes only.
  \<open>LitI\<close> is a literal under \<open>re.IGNORECASE\<close>, and \<open>WordB\<close> is \<open>\b\<close> for the given class
  of word characters.
\<close>

definition newline :: uchar where
  "newline = 0x0A"

datatype rx =
    Eps
  | Chr "uchar \<Rightarrow> bool"
  | Lit ustr
  | LitI ustr
  | Seq rx rx
  | Alt rx rx
  | Opt rx
  | Star "uchar \<Rightarrow> bool"
  | Plus "uchar \<Rightarrow> bool"
  | WordB "uchar \<Rightarrow> bool"
  | Bol
  | Eol

fun prev_at :: "uchar option \<Rightarrow> ustr \<Rightarrow> nat \<Rightarrow> uchar option" where
  \<comment> \<open>the character before position \<open>n\<close> of \<open>s\<close>, when \<open>p\<close> is the one before \<open>s\<close>\<close>
  "prev_at p s 0 = p"
| "prev_at p s (Suc n) = Some (s ! n)"

definition holds_opt :: "(uchar \<Rightarrow> bool) \<Rightarrow> uchar option \<Rightarrow> bool" where
  "holds_opt P p = (case p of None \<Rightarrow> False | Some c \<Rightarrow> P c)"

definition next_char :: "ustr \<Rightarrow> uchar option" where
  "next_char s = (case s of [] \<Rightarrow> None | c # _ \<Rightarrow> Some c)"

fun ends :: "rx \<Rightarrow> uchar option \<Rightarrow> ustr \<Rightarrow> nat list" where
  "ends Eps p s = [0]"
| "ends (Chr P) p s = (case s of [] \<Rightarrow> [] | c # _ \<Rightarrow> if P c then [1] else [])"
| "ends (Lit w) p s = (if prefix w s then [length w] else [])"
| "ends (LitI w) p s =
     (if length w \<le> length s \<and> list_all2 ci_eq w (take (length w) s) then [length w] else [])"
| "ends (Seq a b) p s =
     concat (map (\<lambda>n. map (\<lambda>m. n + m) (ends b (prev_at p s n) (drop n s))) (ends a p s))"
| "ends (Alt a b) p s = ends a p s @ ends b p s"
| "ends (Opt a) p s = ends a p s @ [0]"
| "ends (Star P) p s = rev [0..<Suc (length (takeWhile P s))]"
| "ends (Plus P) p s = rev [1..<Suc (length (takeWhile P s))]"
| "ends (WordB W) p s = (if holds_opt W p \<noteq> holds_opt W (next_char s) then [0] else [])"
| "ends Bol p s = (if p = None then [0] else [])"
| "ends Eol p s = (if s = [] \<or> s = [newline] then [0] else [])"

fun search_from :: "rx \<Rightarrow> uchar option \<Rightarrow> ustr \<Rightarrow> (nat \<times> nat) option" where
  \<comment> \<open>leftmost match: its start and its length\<close>
  "search_from r p [] = (case ends r p [] of [] \<Rightarrow> None | n # _ \<Rightarrow> Some (0, n))"
| "search_from r p (c # cs) =
     (case ends r p (c # cs) of
        n # _ \<Rightarrow> Some (0, n)
      | [] \<Rightarrow> map_option (\<lambda>(i, n). (Suc i, n)) (search_from r (Some c) cs))"

definition re_search :: "rx \<Rightarrow> ustr \<Rightarrow> (nat \<times> nat) option" where
  \<comment> \<open>\<open>re.search(r, s)\<close>\<close>
  "re_search r s = search_from r None s"

definition matched :: "ustr \<Rightarrow> nat \<times> nat \<Rightarrow> ustr" where
  \<comment> \<open>the text of a match\<close>
  "matched s m = take (snd m) (drop (fst m) s)"

definition ends_group :: "rx \<Rightarrow> rx \<Rightarrow> uchar option \<Rightarrow> ustr \<Rightarrow> (nat \<times> nat) list" where
  \<comment> \<open>a pattern \<open>a(b)\<close> whose group is its last part: the lengths matched by \<open>a\<close> and by \<open>b\<close>\<close>
  "ends_group a b p s =
     concat (map (\<lambda>n. map (\<lambda>m. (n, m)) (ends b (prev_at p s n) (drop n s))) (ends a p s))"

fun search_group_from :: "rx \<Rightarrow> rx \<Rightarrow> uchar option \<Rightarrow> ustr \<Rightarrow> (nat \<times> nat) option" where
  \<comment> \<open>leftmost match of \<open>a(b)\<close>: the start and the length of the group\<close>
  "search_group_from a b p [] =
     (case ends_group a b p [] of [] \<Rightarrow> None | (n, m) # _ \<Rightarrow> Some (n, m))"
| "search_group_from a b p (c # cs) =
     (case ends_group a b p (c # cs) of
        (n, m) # _ \<Rightarrow> Some (n, m)
      | [] \<Rightarrow> map_option (\<lambda>(i, m). (Suc i, m)) (search_group_from a b (Some c) cs))"

fun sub_from :: "rx \<Rightarrow> ustr \<Rightarrow> nat \<Rightarrow> uchar option \<Rightarrow> ustr \<Rightarrow> ustr" where
  \<comment> \<open>the counter is the number of characters of the current match still to drop\<close>
  "sub_from r repl k p [] = (if k = 0 \<and> ends r p [] \<noteq> [] then repl else [])"
| "sub_from r repl (Suc k) p (c # cs) = sub_from r repl k (Some c) cs"
| "sub_from r repl 0 p (c # cs) =
     (case ends r p (c # cs) of
        [] \<Rightarrow> c # sub_from r repl 0 (Some c) cs
      | n # _ \<Rightarrow>
          if n = 0 then repl @ c # sub_from r repl 0 (Some c) cs
          else repl @ sub_from r repl (n - 1) (Some c) cs)"

definition re_sub :: "rx \<Rightarrow> ustr \<Rightarrow> ustr \<Rightarrow> ustr" where
  \<comment> \<open>\<open>re.sub(r, repl, s)\<close> for a replacement without group references\<close>
  "re_sub r repl s = sub_from r repl 0 None s"

fun alts :: "rx list \<Rightarrow> rx" where
  \<comment> \<open>\<open>a|b|c\<close>\<close>
  "alts [] = Alt (Chr (\<lambda>c. False)) (Chr (\<lambda>c. False))"
| "alts [r] = r"
| "alts (r # rs) = Alt r (alts rs)"

fun seqs :: "rx list \<Rightarrow> rx" where
  "seqs [] = Eps"
| "seqs [r] = r"
| "seqs (r # rs) = Seq r (seqs rs)"

definition not_newline :: "uchar \<Rightarrow> bool" where
  \<comment> \<open>the class \<open>.\<close>\<close>
  "not_newline c = (c \<noteq> newline)"

subsection \<open>\<open>FieldExtractors.extract_height\<close>\<close>

definition prime :: uchar where
  "prime = 0x2032"

definition double_prime :: uchar where
  "double_prime = 0x2033"

definition feet_mark :: rx where
  \<comment> \<open>the class of the apostrophe and the prime\<close>
  "feet_mark = Chr (\<lambda>c. c = 0x27 \<or> c = prime)"

definition inch_mark :: rx where
  \<comment> \<open>the class of the double quote, the double prime and the apostrophe\<close>
  "inch_mark = Chr (\<lambda>c. c = 0x22 \<or> c = double_prime \<or> c = 0x27)"

definition imperial :: "unicode_db \<Rightarrow> rx" where
  "imperial db = seqs [Plus (is_digit db), feet_mark, Star is_space, Plus (is_digit db),
                       inch_mark, Opt inch_mark]"

definition metric :: "unicode_db \<Rightarrow> rx" where
  "metric db = seqs [Plus (is_digit db), Chr (\<lambda>c. c = 0x2E), Plus (is_digit db),
                     Chr (\<lambda>c. c = 0x6D)]"

definition height_pattern1 :: "unicode_db \<Rightarrow> rx" where
  "height_pattern1 db =
     Seq (imperial db)
       (Opt (seqs [Star is_space, Chr (\<lambda>c. c = 0x2F), Star is_space, metric db]))"

definition height_pattern2 :: "unicode_db \<Rightarrow> rx" where
  "height_pattern2 db = imperial db"

definition height_pattern3 :: "unicode_db \<Rightarrow> rx" where
  "height_pattern3 db = seqs [Plus (is_digit db), Chr (\<lambda>c. c = 0x2D), Plus (is_digit db)]"

definition height_pattern4 :: "unicode_db \<Rightarrow> rx" where
  "height_pattern4 db = metric db"

definition height_label :: rx where
  "height_label = Seq (Lit (U ''Height:'')) (Star is_space)"

definition height_value :: rx where
  "height_value = Plus (\<lambda>c. c \<noteq> 0x2C \<and> c \<noteq> newline)"

definition extract_height :: "unicode_db \<Rightarrow> ustr \<Rightarrow> ustr" where
  "extract_height db text =
     (if text = [] then []
      else case re_search (height_pattern1 db) text of
        Some m \<Rightarrow> strip (matched text m)
      | None \<Rightarrow>
      (case re_search (height_pattern2 db) text of
        Some m \<Rightarrow> strip (matched text m)
      | None \<Rightarrow>
      (case re_search (height_pattern3 db) text of
        Some m \<Rightarrow> strip (matched text m)
      | None \<Rightarrow>
      (case re_search (height_pattern4 db) text of
        Some m \<Rightarrow> strip (matched text m)
      | None \<Rightarrow>
      (case search_group_from height_label height_value None text of
        Some m \<Rightarrow> strip (matched text m)
      | None \<Rightarrow> [])))))"

subsection \<open>\<open>FieldExtractors.extract_position\<close>\<close>

definition position_words :: "ustr list" where
  \<comment> \<open>the alternatives of the pattern, in the order of the source\<close>
  "position_words = map U
     [''GK'', ''G'', ''GOALKEEPER'',
      ''D'', ''DEF'', ''DF'', ''DEFENDER'', ''B'', ''BACK'', ''CB'', ''LB'', ''RB'', ''LCB'',
      ''RCB'', ''FB'', ''LWB'', ''RWB'',
      ''M'', ''MF'', ''MID'', ''MIDFIELDER'', ''CM'', ''CDM'', ''CAM'', ''DM'', ''AM'', ''LM'',
      ''RM'',
      ''F'', ''FW'', ''FOR'', ''FORWARD'', ''ST'', ''STRIKER'', ''A'', ''ATT'', ''ATTACKER'',
      ''W'', ''WING'', ''WINGER'', ''LW'', ''RW'']"

definition position_pattern :: "unicode_db \<Rightarrow> rx" where
  "position_pattern db =
     Seq (WordB (is_word db)) (Seq (alts (map LitI position_words)) (WordB (is_word db)))"

definition normalize_position :: "ustr \<Rightarrow> ustr" where
  \<comment> \<open>the chain of membership tests on the upper-cased match\<close>
  "normalize_position pos =
     (if pos \<in> set (map U [''GK'', ''G'', ''GOALKEEPER'']) then U ''GK''
      else if pos \<in> set (map U [''DEF'', ''DF'', ''DEFENDER'', ''B'', ''BACK'', ''CB'', ''LB'',
                          ''RB'', ''LCB'', ''RCB'', ''FB'', ''LWB'', ''RWB'']) then U ''D''
      else if pos \<in> set (map U [''MID'', ''MF'', ''MIDFIELDER'', ''CM'', ''CDM'', ''CAM'', ''DM'',
                          ''AM'', ''LM'', ''RM'']) then U ''M''
      else if pos \<in> set (map U [''FOR'', ''FW'', ''FORWARD'', ''ST'', ''STRIKER'', ''A'', ''ATT'',
                          ''ATTACKER'', ''W'', ''WING'', ''WINGER'', ''LW'', ''RW'']) then U ''F''
      else pos)"

definition position_by_name :: "ustr \<Rightarrow> ustr" where
  \<comment> \<open>the fallback on full position names\<close>
  "position_by_name text_upper =
     (if contains (U ''GOALKEEPER'') text_upper \<or> contains (U ''GOALIE'') text_upper \<or>
         contains (U ''KEEPER'') text_upper then U ''GK''
      else if contains (U ''DEFENDER'') text_upper \<or> contains (U ''DEFENCE'') text_upper \<or>
         contains (U ''DEFENSE'') text_upper \<or> contains (U ''BACK'') text_upper then U ''D''
      else if contains (U ''MIDFIELDER'') text_upper \<or> contains (U ''MIDFIELD'') text_upper
        then U ''M''
      else if contains (U ''FORWARD'') text_upper \<or> contains (U ''STRIKER'') text_upper \<or>
         contains (U ''ATTACKER'') text_upper \<or> contains (U ''ATTACK'') text_upper then U ''F''
      else [])"

definition extract_position :: "unicode_db \<Rightarrow> ustr \<Rightarrow> ustr" where
  "extract_position db text0 =
     (if text0 = [] then []
      else let text = strip text0 in
        case re_search (position_pattern db) text of
          Some m \<Rightarrow> normalize_position (upper db (matched text m))
        | None \<Rightarrow> position_by_name (upper db text))"

subsection \<open>\<open>FieldExtractors.parse_hometown_school\<close>\<close>





subsection \<open>\<open>FieldExtractors.clean_field_labels\<close> and \<open>FieldExtractors.clean_text\<close>\<close>

definition dot_colon :: "rx list" where
  \<comment> \<open>\<open>\.?:\<close>\<close>
  "dot_colon = [Opt (Chr (\<lambda>c. c = 0x2E)), Chr (\<lambda>c. c = 0x3A)]"

definition label_patterns :: "unicode_db \<Rightarrow> rx list" where
  "label_patterns db =
     [seqs [WordB (is_word db), LitI (U ''Class:''), Star is_space],
      seqs [WordB (is_word db), LitI (U ''Hometown:''), Star is_space],
      seqs [WordB (is_word db), LitI (U ''High school:''), Star is_space],
      seqs [WordB (is_word db), LitI (U ''Previous College:''), Star is_space],
      seqs [WordB (is_word db), LitI (U ''Previous School:''), Star is_space],
      seqs ([WordB (is_word db), LitI (U ''Ht'')] @ dot_colon @ [Star is_space]),
      seqs ([WordB (is_word db), LitI (U ''Pos'')] @ dot_colon @ [Star is_space]),
      seqs [WordB (is_word db), LitI (U ''Major:''), Star is_space],
      seqs [Bol, LitI (U ''High school:''), Star is_space],
      seqs [Bol, LitI (U ''Hometown:''), Star is_space],
      seqs ([Bol, LitI (U ''No'')] @ dot_colon @ [Star is_space])]"

definition clean_field_labels :: "unicode_db \<Rightarrow> ustr \<Rightarrow> ustr" where
  "clean_field_labels db text =
     (if text = [] then text
      else foldl (\<lambda>t p. strip (re_sub p [] t)) text (label_patterns db))"

definition page_noise :: rx where
  "page_noise =
     seqs [Star is_space,
           alts [Lit (U ''Full Bio''), Lit (U ''Instagram''), Lit (U ''Twitter''),
                 Lit (U ''Opens in a new window'')],
           Star not_newline, Eol]"

definition clean_text :: "unicode_db \<Rightarrow> ustr \<Rightarrow> ustr" where
  "clean_text db text =
     (if text = [] then []
      else
        let cleaned = re_sub (Plus is_space) (U '' '') (strip text);
            cleaned = re_sub page_noise [] cleaned
        in clean_field_labels db cleaned)"

section \<open>Notions used in the statements\<close>




definition int_str :: "int \<Rightarrow> ustr" where
  \<comment> \<open>the decimal numeral of an integer\<close>
  "int_str i = (if i < 0 then 0x2D # nat_str (nat \<bar>i\<bar>) else nat_str (nat \<bar>i\<bar>))"

definition digits_ok :: "int \<Rightarrow> bool" where
  \<comment> \<open>the numeral of the integer is within the digit limit, so that \<open>str\<close> returns it\<close>
  "digits_ok i = (length (nat_str (nat \<bar>i\<bar>)) \<le> max_str_digits)"

definition plain_db :: unicode_db where
  \<comment> \<open>a database with no letters, digits or case pairs beyond the fixed part\<close>
  "plain_db = \<lparr> alnum = (\<lambda>c. False), decimal = (\<lambda>c. None), upper_of = (\<lambda>c. [c]) \<rparr>"

section \<open>Properties\<close>

lemma U_simps:
  "U [] = []"
  "U (c # cs) = of_char c # U cs"
  by (simp_all add: U_def)

lemma coverage_less_iff:
  assumes "players \<noteq> []"
  shows "coverage f players < of_nat k \<longleftrightarrow> field_count f players * 100 < k * length players"
proof -
  have pos: "(0::rat) < of_nat (length players)" using assms by simp
  have "coverage f players < of_nat k \<longleftrightarrow>
        (of_nat (field_count f players * 100) :: rat) < of_nat (k * length players)"
    unfolding coverage_def using pos by (simp add: divide_less_eq)
  then show ?thesis by (simp only: of_nat_less_iff)
qed

lemma coverage_ge_iff:
  assumes "players \<noteq> []"
  shows "coverage f players \<ge> of_nat k \<longleftrightarrow> k * length players \<le> field_count f players * 100"
  using coverage_less_iff [OF assms, of f k] by (simp add: not_less [symmetric])

lemma validate_players_eq_spec: "validate_players players = spec_accepts players"
  unfolding validate_players_def spec_accepts_def Let_def
  by (auto simp: not_less)

text \<open>
  C1. The validator accepts a list exactly when it is non-empty, name coverage is at
  least 80%, jersey coverage is at least 80% (at least 50% for 15 or more records), and
  position and year coverage are each at least 70% (each at least 50% for 15 or more
  records), or the list has at least 15 records with name coverage at least 80% and
  jersey coverage at least 50%. A 20-record roster with 18 named, 18 jerseyed,
  10 positioned and 10 classed records is accepted, a 20-record roster with only
  12 named records is rejected, and the empty list is rejected.
\<close>

theorem validate_players_acceptance_rule:
  "validate_players players = spec_accepts players \<and>
   (length players = 20 \<and> field_count name players = 18 \<and>
    field_count jersey players = 18 \<and> field_count position players = 10 \<and>
    field_count year players = 10 \<longrightarrow> validate_players players) \<and>
   (length players = 20 \<and> field_count name players = 12 \<longrightarrow> \<not> validate_players players) \<and>
   \<not> validate_players []"
proof (intro conjI impI)
  show "validate_players players = spec_accepts players"
    by (rule validate_players_eq_spec)
next
  assume h: "length players = 20 \<and> field_count name players = 18 \<and>
    field_count jersey players = 18 \<and> field_count position players = 10 \<and>
    field_count year players = 10"
  then have ne: "players \<noteq> []" by auto
  have n: "\<not> coverage name players < 80"
    using coverage_less_iff [OF ne, of name 80] h by simp
  have j: "\<not> coverage jersey players < 80"
    using coverage_less_iff [OF ne, of jersey 80] h by simp
  have p: "coverage position players \<ge> 50"
    using coverage_ge_iff [OF ne, of 50 position] h by simp
  show "validate_players players"
    using ne n j p h unfolding validate_players_def Let_def by simp
next
  assume h: "length players = 20 \<and> field_count name players = 12"
  then have ne: "players \<noteq> []" by auto
  have "coverage name players < 80"
    using coverage_less_iff [OF ne, of name 80] h by simp
  then show "\<not> validate_players players"
    using ne unfolding validate_players_def Let_def by simp
next
  show "\<not> validate_players []"
    by (simp add: validate_players_def)
qed

lemma roster20_counts:
  "length (roster20 k) = 20"
  "field_count jersey (roster20 k) = 18"
  "field_count position (roster20 k) = 10"
  "field_count year (roster20 k) = 10"
  "field_count name (roster20 18) = 18"
  "field_count name (roster20 12) = 12"
  by (simp_all add: roster20_def field_count_def U_simps upt_rec [of _ "numeral _"] upt_rec [of 0])

theorem validate_players_acceptance_rule_witness:
  "length (roster20 18) = 20 \<and> field_count name (roster20 18) = 18 \<and>
   field_count jersey (roster20 18) = 18 \<and> field_count position (roster20 18) = 10 \<and>
   field_count year (roster20 18) = 10 \<and>
   validate_players (roster20 18) \<and> spec_accepts (roster20 18) \<and>
   length (roster20 12) = 20 \<and> field_count name (roster20 12) = 12 \<and>
   \<not> validate_players (roster20 12) \<and> \<not> spec_accepts (roster20 12)"
  using validate_players_acceptance_rule [of "roster20 18"]
        validate_players_acceptance_rule [of "roster20 12"]
  by (auto simp add: roster20_counts)

subsection \<open>Academic year\<close>

lemma strip_literals:
  "strip [] = []"
  "strip (U ''Freshman'') = U ''Freshman''"
  "strip (U ''Sophomore'') = U ''Sophomore''"
  "strip (U ''Junior'') = U ''Junior''"
  "strip (U ''Senior'') = U ''Senior''"
  "strip (U ''Graduate'') = U ''Graduate''"
  "strip (U ''Redshirt Freshman'') = U ''Redshirt Freshman''"
  "strip (U ''Redshirt Sophomore'') = U ''Redshirt Sophomore''"
  "strip (U ''Redshirt Junior'') = U ''Redshirt Junior''"
  "strip (U ''Redshirt Senior'') = U ''Redshirt Senior''"
  "strip (U ''Jr.'') = U ''Jr.''"
  "strip (U ''R-So'') = U ''R-So''"
  "strip (U '' Sr '') = U ''Sr''"
  "strip (U ''Jr.'' @ [0xA0]) = U ''Jr.''"
  "strip (U ''3rd'') = U ''3rd''"
  "strip (U ''Fifth-year'') = U ''Fifth-year''"
  by code_simp+

lemma year_map_long_forms:
  "snd ` set year_map = {U ''Freshman'', U ''Sophomore'', U ''Junior'', U ''Senior'', U ''Graduate'',
     U ''Redshirt Freshman'', U ''Redshirt Sophomore'', U ''Redshirt Junior'',
     U ''Redshirt Senior''}"
  unfolding year_map_def by (simp add: insert_commute)

lemma strip_empty_not_key: "map_of year_map (strip []) = None"
  by code_simp

lemma long_form_literals:
  "normalize_academic_year (U ''Freshman'') = U ''Freshman''"
  "normalize_academic_year (U ''Sophomore'') = U ''Sophomore''"
  "normalize_academic_year (U ''Junior'') = U ''Junior''"
  "normalize_academic_year (U ''Senior'') = U ''Senior''"
  "normalize_academic_year (U ''Graduate'') = U ''Graduate''"
  "normalize_academic_year (U ''Redshirt Freshman'') = U ''Redshirt Freshman''"
  "normalize_academic_year (U ''Redshirt Sophomore'') = U ''Redshirt Sophomore''"
  "normalize_academic_year (U ''Redshirt Junior'') = U ''Redshirt Junior''"
  "normalize_academic_year (U ''Redshirt Senior'') = U ''Redshirt Senior''"
  by code_simp+

lemma long_form_fixed:
  assumes "v \<in> snd ` set year_map"
  shows "normalize_academic_year v = v"
proof -
  from assms have "v \<in> {U ''Freshman'', U ''Sophomore'', U ''Junior'', U ''Senior'', U ''Graduate'',
     U ''Redshirt Freshman'', U ''Redshirt Sophomore'', U ''Redshirt Junior'',
     U ''Redshirt Senior''}"
    by (simp only: year_map_long_forms)
  then show ?thesis
    by (elim insertE emptyE) (simp_all only: long_form_literals)
qed

lemma normalize_academic_year_idem:
  "normalize_academic_year (normalize_academic_year t) = normalize_academic_year t"
proof (cases "t = []")
  case True
  then show ?thesis by (simp add: normalize_academic_year_def)
next
  case False
  show ?thesis
  proof (cases "map_of year_map (strip t)")
    case None
    then show ?thesis using False by (simp add: normalize_academic_year_def)
  next
    case (Some v)
    then have "(strip t, v) \<in> set year_map" by (rule map_of_SomeD)
    then have "v \<in> snd ` set year_map" by force
    moreover have "normalize_academic_year t = v"
      using Some False by (simp add: normalize_academic_year_def)
    ultimately show ?thesis using long_form_fixed by simp
  qed
qed

text \<open>
  C7. normalize_academic_year maps every input whose trimmed form is a key of the
  abbreviation table to the long-form class name of that key, and returns every other
  input unchanged. Trimming removes the whitespace of Unicode: 'Jr.' followed by a
  no-break space gives 'Junior'. The long forms are fixed points, so the function is
  idempotent; 'Jr.' gives 'Junior', 'R-So' gives 'Redshirt Sophomore' and 'Freshman'
  stays 'Freshman'.
\<close>

theorem normalize_academic_year_table_or_passthrough:
  "(map_of year_map (strip t) = Some v \<longrightarrow> normalize_academic_year t = v) \<and>
   (map_of year_map (strip t) = None \<longrightarrow> normalize_academic_year t = t) \<and>
   (v \<in> snd ` set year_map \<longrightarrow> normalize_academic_year v = v) \<and>
   normalize_academic_year (normalize_academic_year t) = normalize_academic_year t \<and>
   normalize_academic_year (U ''Jr.'') = U ''Junior'' \<and>
   normalize_academic_year (U ''R-So'') = U ''Redshirt Sophomore'' \<and>
   normalize_academic_year (U '' Sr '') = U ''Senior'' \<and>
   normalize_academic_year (U ''Jr.'' @ [0xA0]) = U ''Junior'' \<and>
   normalize_academic_year (U ''Freshman'') = U ''Freshman''"
proof (intro conjI impI)
  assume k: "map_of year_map (strip t) = Some v"
  then have "t \<noteq> []" using strip_empty_not_key by auto
  with k show "normalize_academic_year t = v"
    by (simp add: normalize_academic_year_def)
next
  assume "map_of year_map (strip t) = None"
  then show "normalize_academic_year t = t"
    by (simp add: normalize_academic_year_def)
next
  assume "v \<in> snd ` set year_map"
  then show "normalize_academic_year v = v" by (rule long_form_fixed)
next
  show "normalize_academic_year (normalize_academic_year t) = normalize_academic_year t"
    by (rule normalize_academic_year_idem)
next
  show "normalize_academic_year (U ''Jr.'') = U ''Junior''" by code_simp
next
  show "normalize_academic_year (U ''R-So'') = U ''Redshirt Sophomore''" by code_simp
next
  show "normalize_academic_year (U '' Sr '') = U ''Senior''" by code_simp
next
  show "normalize_academic_year (U ''Jr.'' @ [0xA0]) = U ''Junior''" by code_simp
next
  show "normalize_academic_year (U ''Freshman'') = U ''Freshman''" by code_simp
qed

theorem normalize_academic_year_table_or_passthrough_witness:
  "map_of year_map (strip (U ''3rd'')) = Some (U ''Junior'') \<and>
   normalize_academic_year (U ''3rd'') = U ''Junior'' \<and>
   map_of year_map (strip (U ''Fifth-year'')) = None \<and>
   normalize_academic_year (U ''Fifth-year'') = U ''Fifth-year'' \<and>
   U ''Graduate'' \<in> snd ` set year_map \<and>
   normalize_academic_year (U ''Graduate'') = U ''Graduate''"
proof -
  have k: "map_of year_map (strip (U ''3rd'')) = Some (U ''Junior'')" by code_simp
  have n: "map_of year_map (strip (U ''Fifth-year'')) = None" by code_simp
  have g: "U ''Graduate'' \<in> snd ` set year_map" unfolding year_map_long_forms by simp
  have r1: "normalize_academic_year (U ''3rd'') = U ''Junior''"
    by (rule mp [OF normalize_academic_year_table_or_passthrough
          [of "U ''3rd''" "U ''Junior''", THEN conjunct1] k])
  have r2: "normalize_academic_year (U ''Fifth-year'') = U ''Fifth-year''"
    by (rule mp [OF normalize_academic_year_table_or_passthrough
          [of "U ''Fifth-year''" "U ''Graduate''", THEN conjunct2, THEN conjunct1] n])
  have r3: "normalize_academic_year (U ''Graduate'') = U ''Graduate''"
    by (rule mp [OF normalize_academic_year_table_or_passthrough
          [of "U ''Fifth-year''" "U ''Graduate''", THEN conjunct2, THEN conjunct2, THEN conjunct1] g])
  show ?thesis by (intro conjI k n g r1 r2 r3)
qed

subsection \<open>URL builder\<close>

lemma contains_iff: "contains sub s \<longleftrightarrow> (\<exists>pre post. s = pre @ sub @ post)"
proof (induction s)
  case Nil
  then show ?case by auto
next
  case (Cons c cs)
  show ?case
  proof
    assume "contains sub (c # cs)"
    then consider "prefix sub (c # cs)" | "contains sub cs" by auto
    then show "\<exists>pre post. c # cs = pre @ sub @ post"
    proof cases
      case 1
      then obtain post where "c # cs = sub @ post" by (auto simp: prefix_def)
      then have "c # cs = [] @ sub @ post" by simp
      then show ?thesis by blast
    next
      case 2
      with Cons.IH obtain pre post where "cs = pre @ sub @ post" by auto
      then have "c # cs = (c # pre) @ sub @ post" by simp
      then show ?thesis by blast
    qed
  next
    assume "\<exists>pre post. c # cs = pre @ sub @ post"
    then obtain pre post where e: "c # cs = pre @ sub @ post" by auto
    show "contains sub (c # cs)"
    proof (cases pre)
      case Nil
      with e have "prefix sub (c # cs)" by (simp add: prefix_def)
      then show ?thesis by simp
    next
      case (Cons p ps)
      with e have "cs = ps @ sub @ post" by simp
      with Cons.IH have "contains sub cs" by auto
      then show ?thesis by simp
    qed
  qed
qed

lemma rev_split_while:
  "l = rev (dropWhile P (rev l)) @ rev (takeWhile P (rev l))"
  by (metis rev_append rev_rev_ident takeWhile_dropWhile_id)

lemma rstrip_char_prefix: "\<exists>rest. b = rstrip_char c b @ rest"
  unfolding rstrip_char_def using rev_split_while [of b "\<lambda>x. x = c"] by blast

lemma contains_rstrip_char:
  assumes "contains sub (rstrip_char c b)"
  shows "contains sub b"
proof -
  from assms obtain pre post where e: "rstrip_char c b = pre @ sub @ post"
    unfolding contains_iff by auto
  from rstrip_char_prefix [of b c] obtain rest where "b = rstrip_char c b @ rest" ..
  with e have "b = pre @ sub @ (post @ rest)" by simp
  then show ?thesis unfolding contains_iff by blast
qed

lemma season_range_int_str:
  assumes "digits_ok y" "digits_ok (y + 1)"
  shows "season_range y = Some (int_str y @ U ''-'' @ last_two (int_str (y + 1)))"
  using assms
  by (simp add: season_range_def py_str_def digits_ok_def int_str_def Let_def)

text \<open>
  C5. A base URL that ends in \<open>/roster/\<close> is not returned as it is: the builder removes
  the trailing slashes before it looks for \<open>/roster/\<close>, finds none, and applies the pattern
  of the family. The base \<open>https://example.edu/sports/wsoc/roster/\<close> with the season 2025
  under the default family gives \<open>https://example.edu/sports/wsoc/roster/roster/2025\<close>.
  Everywhere else the builder does what is claimed. When \<open>/roster/\<close> occurs in the base
  URL without its trailing slashes, that URL is the result for every family. When
  \<open>/roster/\<close> does not occur in the base URL, the default family gives
  \<open>base/roster/season\<close>, and the season-range family, for a season that \<open>int()\<close> reads as
  the year \<open>y\<close>, gives \<open>clean/y-nn/roster\<close>, where \<open>base\<close> is the base URL without its
  trailing slashes, \<open>clean\<close> is \<open>base\<close> without its \<open>/index\<close> segments and \<open>nn\<close> is the last
  two digits of \<open>y + 1\<close>. For the base \<open>https://example.edu/sports/wsoc\<close> and the season
  2025 the two families give \<open>.../sports/wsoc/2025-26/roster\<close> and
  \<open>.../sports/wsoc/roster/2025\<close>.
\<close>

theorem build_roster_url_trailing_roster:
  "contains (U ''/roster/'') (U ''https://example.edu/sports/wsoc/roster/'') \<and>
   build_roster_url db (U ''https://example.edu/sports/wsoc/roster/'') (U ''2025'') (U ''default'')
     = U ''https://example.edu/sports/wsoc/roster/roster/2025'' \<and>
   (contains (U ''/roster/'') (rstrip_char 0x2F b) \<longrightarrow>
      build_roster_url db b s f = rstrip_char 0x2F b) \<and>
   (\<not> contains (U ''/roster/'') b \<longrightarrow>
      build_roster_url db b s (U ''default'') = rstrip_char 0x2F b @ U ''/roster/'' @ s) \<and>
   (\<not> contains (U ''/roster/'') b \<and> py_int db s = Some y \<and> digits_ok y \<and> digits_ok (y + 1) \<longrightarrow>
      build_roster_url db b s (U ''wsoc_season_range'')
        = replace (U ''/index'') [] (rstrip_char 0x2F b) @ U ''/'' @
          int_str y @ U ''-'' @ last_two (int_str (y + 1)) @ U ''/roster'') \<and>
   build_roster_url db (U ''https://example.edu/sports/wsoc'') (U ''2025'') (U ''wsoc_season_range'')
     = U ''https://example.edu/sports/wsoc/2025-26/roster'' \<and>
   build_roster_url db (U ''https://example.edu/sports/wsoc'') (U ''2025'') (U ''default'')
     = U ''https://example.edu/sports/wsoc/roster/2025''"
proof (intro conjI impI)
  show "contains (U ''/roster/'') (U ''https://example.edu/sports/wsoc/roster/'')"
    by code_simp
next
  show "build_roster_url db (U ''https://example.edu/sports/wsoc/roster/'') (U ''2025'') (U ''default'')
     = U ''https://example.edu/sports/wsoc/roster/roster/2025''"
    by code_simp
next
  assume "contains (U ''/roster/'') (rstrip_char 0x2F b)"
  then show "build_roster_url db b s f = rstrip_char 0x2F b"
    by (simp add: build_roster_url_def)
next
  assume "\<not> contains (U ''/roster/'') b"
  then have "\<not> contains (U ''/roster/'') (rstrip_char 0x2F b)"
    using contains_rstrip_char by blast
  then show "build_roster_url db b s (U ''default'') = rstrip_char 0x2F b @ U ''/roster/'' @ s"
    by (simp add: build_roster_url_def)
next
  assume a: "\<not> contains (U ''/roster/'') b \<and> py_int db s = Some y \<and> digits_ok y \<and> digits_ok (y + 1)"
  then have n: "\<not> contains (U ''/roster/'') (rstrip_char 0x2F b)"
    using contains_rstrip_char by blast
  have r: "range_of_season db s = Some (int_str y @ U ''-'' @ last_two (int_str (y + 1)))"
    using a by (simp add: range_of_season_def season_range_int_str)
  have f: "U ''wsoc_season_range'' \<noteq> U ''default''" "U ''wsoc_season_range'' \<noteq> U ''wsoc_index''"
    "U ''wsoc_season_range'' \<noteq> U ''wsoc_plain''" "U ''wsoc_season_range'' \<noteq> U ''ucf_table''"
    "U ''wsoc_season_range'' \<noteq> U ''virginia_season''"
    "U ''wsoc_season_range'' \<noteq> U ''clemson_roster''"
    "U ''wsoc_season_range'' \<noteq> U ''kentucky_season''"
    by (simp_all add: U_simps)
  show "build_roster_url db b s (U ''wsoc_season_range'')
        = replace (U ''/index'') [] (rstrip_char 0x2F b) @ U ''/'' @
          int_str y @ U ''-'' @ last_two (int_str (y + 1)) @ U ''/roster''"
    using n r f by (simp add: build_roster_url_def)
next
  show "build_roster_url db (U ''https://example.edu/sports/wsoc'') (U ''2025'') (U ''wsoc_season_range'')
     = U ''https://example.edu/sports/wsoc/2025-26/roster''"
    by code_simp
next
  show "build_roster_url db (U ''https://example.edu/sports/wsoc'') (U ''2025'') (U ''default'')
     = U ''https://example.edu/sports/wsoc/roster/2025''"
    by code_simp
qed

theorem build_roster_url_trailing_roster_witness:
  "contains (U ''/roster/'') (rstrip_char 0x2F (U ''https://example.edu/roster/2024/'')) \<and>
   build_roster_url plain_db (U ''https://example.edu/roster/2024/'') (U ''2025'') (U ''ucf_table'')
     = U ''https://example.edu/roster/2024'' \<and>
   \<not> contains (U ''/roster/'') (U ''https://example.edu/wsoc/index/'') \<and>
   py_int plain_db (U ''1999'') = Some 1999 \<and> digits_ok 1999 \<and> digits_ok (1999 + 1) \<and>
   build_roster_url plain_db (U ''https://example.edu/wsoc/index/'') (U ''1999'') (U ''default'')
     = U ''https://example.edu/wsoc/index/roster/1999'' \<and>
   build_roster_url plain_db (U ''https://example.edu/wsoc/index/'') (U ''1999'') (U ''wsoc_season_range'')
     = U ''https://example.edu/wsoc/1999-00/roster''"
proof -
  let ?b1 = "U ''https://example.edu/roster/2024/''"
  let ?b2 = "U ''https://example.edu/wsoc/index/''"
  have a: "contains (U ''/roster/'') (rstrip_char 0x2F ?b1)" by code_simp
  have r1: "rstrip_char 0x2F ?b1 = U ''https://example.edu/roster/2024''" by code_simp
  have b: "\<not> contains (U ''/roster/'') ?b2" by code_simp
  have p: "py_int plain_db (U ''1999'') = Some 1999" by code_simp
  have d: "digits_ok 1999" "digits_ok (1999 + 1)" by code_simp+
  have e1: "rstrip_char 0x2F ?b2 @ U ''/roster/'' @ U ''1999''
          = U ''https://example.edu/wsoc/index/roster/1999''" by code_simp
  have e2: "replace (U ''/index'') [] (rstrip_char 0x2F ?b2) @ U ''/'' @
          int_str 1999 @ U ''-'' @ last_two (int_str (1999 + 1)) @ U ''/roster''
          = U ''https://example.edu/wsoc/1999-00/roster''" by code_simp
  note t1 = build_roster_url_trailing_roster
    [where db = plain_db and b = ?b1 and s = "U ''2025''" and f = "U ''ucf_table''" and y = 0]
  note t2 = build_roster_url_trailing_roster
    [where db = plain_db and b = ?b2 and s = "U ''1999''" and f = "U ''default''" and y = 1999]
  have u1: "build_roster_url plain_db ?b1 (U ''2025'') (U ''ucf_table'') = U ''https://example.edu/roster/2024''"
    using mp [OF t1 [THEN conjunct2, THEN conjunct2, THEN conjunct1] a] unfolding r1 .
  have u2: "build_roster_url plain_db ?b2 (U ''1999'') (U ''default'')
     = U ''https://example.edu/wsoc/index/roster/1999''"
    using mp [OF t2 [THEN conjunct2, THEN conjunct2, THEN conjunct2, THEN conjunct1] b]
    unfolding e1 .
  have u3: "build_roster_url plain_db ?b2 (U ''1999'') (U ''wsoc_season_range'')
     = U ''https://example.edu/wsoc/1999-00/roster''"
    using mp [OF t2 [THEN conjunct2, THEN conjunct2, THEN conjunct2, THEN conjunct2, THEN conjunct1]
          conjI [OF b conjI [OF p conjI [OF d(1) d(2)]]]]
    unfolding e2 .
  show ?thesis by (intro conjI a u1 b p d u2 u3)
qed

subsection \<open>Position\<close>

text \<open>
  C3. extract_position can return a string that is none of GK, D, M, F and the empty
  string. Case-insensitive matching lets the Kelvin sign (U+212A) stand for the K of a
  vocabulary token and the dotted capital I (U+0130) for its I; upper-casing leaves both as
  they are; the upper-cased match is then in none of the four families and is returned
  as it is. So \<open>G\<close> followed by the Kelvin sign comes back unchanged, and so does \<open>M\<close>,
  dotted capital I, \<open>D\<close>. On the examples of the claim the result is the documented code:
  'Striker' gives F, 'CB' gives D, 'Winger' gives F, and a text that holds 'goalie' gives GK.
\<close>

theorem extract_position_returns_unlisted_match:
  "extract_position db [0x47, 0x212A] = [0x47, 0x212A] \<and>
   extract_position db [0x4D, 0x130, 0x44] = [0x4D, 0x130, 0x44] \<and>
   extract_position db (U ''Striker'') = U ''F'' \<and>
   extract_position db (U ''CB'') = U ''D'' \<and>
   extract_position db (U ''Winger'') = U ''F'' \<and>
   extract_position db (U ''our goalies'') = U ''GK''"
proof (intro conjI)
  show "extract_position db [0x47, 0x212A] = [0x47, 0x212A]" by code_simp
next
  show "extract_position db [0x4D, 0x130, 0x44] = [0x4D, 0x130, 0x44]" by code_simp
next
  show "extract_position db (U ''Striker'') = U ''F''" by code_simp
next
  show "extract_position db (U ''CB'') = U ''D''" by code_simp
next
  show "extract_position db (U ''Winger'') = U ''F''" by code_simp
next
  show "extract_position db (U ''our goalies'') = U ''GK''" by code_simp
qed

subsection \<open>Hometown and school\<close>






end
